theory Spec2Isabelle
  imports Main
begin

section \<open>Data model of the auction room engine\<close>

text \<open>
  The engine is the set of socket handlers of the multi-room server
  (\<^verbatim>\<open>io.on('connection', ...)\<close>) together with \<^verbatim>\<open>getRoomState\<close>.

  Identifiers (\<^verbatim>\<open>teamId\<close>, \<^verbatim>\<open>playerId\<close>) arrive in a JSON payload: a string,
  \<^verbatim>\<open>null\<close>, or nothing at all, in which case destructuring yields \<^verbatim>\<open>undefined\<close>.
  The handlers tell these apart in two ways: \<^verbatim>\<open>=== null\<close> (only \<^verbatim>\<open>null\<close>) and
  truthiness in \<^verbatim>\<open>a && b\<close> (neither \<^verbatim>\<open>null\<close>, nor \<^verbatim>\<open>undefined\<close>, nor the empty string).
\<close>

datatype jsid = Null | Undefined | Id string

fun truthy :: "jsid \<Rightarrow> bool" where
  "truthy Null = False"
| "truthy Undefined = False"
| "truthy (Id s) = (s \<noteq> [])"

text \<open>The five string literals ever assigned to \<^verbatim>\<open>state.status\<close>.\<close>

datatype status = IDLE | ACTIVE | PAUSED | SOLD | UNSOLD

text \<open>An undo frame, \<^verbatim>\<open>{ bid: state.currentBid, leader: state.leadingTeamId }\<close>.\<close>

record frame =
  bid :: int
  leader :: jsid

text \<open>
  Monetary amounts are integers; the handlers only compare and copy them, they never
  compute with them.
\<close>

record room_state =
  currentBid :: int
  leadingTeamId :: jsid
  currentPlayerId :: jsid
  status :: status
  bidHistory :: "frame list"

text \<open>The object \<^verbatim>\<open>getRoomState\<close> stores for an auction identifier it has not seen.\<close>

definition initial_state :: room_state where
  "initial_state =
     \<lparr>currentBid = 0, leadingTeamId = Null, currentPlayerId = Null, status = IDLE,
      bidHistory = []\<rparr>"

text \<open>
  What a handler sends out, in the order it does so.
  \<^item> \<open>Auction_state s\<close>: \<^verbatim>\<open>io.to(auctionId).emit('auction_state', state)\<close>;
  \<^item> \<open>Joined_state s\<close>: \<^verbatim>\<open>socket.emit('auction_state', ...)\<close>, to the joining socket only;
  \<^item> \<open>Player_sold p t b\<close>: \<^verbatim>\<open>Player.findByIdAndUpdate(p, {isSold: true, soldTo: t, soldPrice: b})\<close>;
  \<^item> \<open>Team_credit t b p\<close>: \<^verbatim>\<open>Team.findByIdAndUpdate(t, {$inc: {spent: b}, $push: {players: p}})\<close>;
  \<^item> \<open>Player_unsold p\<close>: \<^verbatim>\<open>Player.findByIdAndUpdate(p, {isSold: false, isUnsold: true})\<close>;
  \<^item> \<open>Data_update\<close>: \<^verbatim>\<open>io.to(auctionId).emit('data_update')\<close>;
  \<^item> \<open>Unhandled_rejection\<close>: the promise of an \<^verbatim>\<open>async\<close> handler rejects and nothing
    catches it. The server installs no handler for that, so Node ends the process.
\<close>

datatype effect =
    Auction_state room_state
  | Joined_state room_state
  | Player_sold jsid jsid int
  | Team_credit jsid int jsid
  | Player_unsold jsid
  | Data_update
  | Unhandled_rejection

section \<open>The handlers, on one room\<close>

text \<open>
  Each handler takes the room's state and returns the state after it with the effects it
  issued. A handler that returns early issues none.
\<close>

definition join_auction :: "room_state \<Rightarrow> room_state \<times> effect list" where
  "join_auction s = (s, [Joined_state s])"

definition start_player :: "jsid \<Rightarrow> int \<Rightarrow> room_state \<Rightarrow> room_state \<times> effect list" where
  "start_player playerId basePrice s =
     (let s' = s\<lparr>currentBid := basePrice, leadingTeamId := Null,
                  currentPlayerId := playerId, status := ACTIVE, bidHistory := []\<rparr>
      in (s', [Auction_state s']))"

text \<open>The part of \<^verbatim>\<open>place_bid\<close> after the two guarded returns.\<close>

definition accept_bid :: "jsid \<Rightarrow> int \<Rightarrow> room_state \<Rightarrow> room_state \<times> effect list" where
  "accept_bid teamId amount s =
     (let s' = s\<lparr>bidHistory := bidHistory s @ [\<lparr>bid = currentBid s, leader = leadingTeamId s\<rparr>],
                  currentBid := amount, leadingTeamId := teamId\<rparr>
      in (s', [Auction_state s']))"

definition place_bid :: "jsid \<Rightarrow> int \<Rightarrow> room_state \<Rightarrow> room_state \<times> effect list" where
  "place_bid teamId amount s =
     (if leadingTeamId s = Null then
        (if amount < currentBid s then (s, []) else accept_bid teamId amount s)
      else
        (if amount \<le> currentBid s then (s, []) else accept_bid teamId amount s))"

text \<open>\<^verbatim>\<open>pop\<close> removes and returns the last element of the array.\<close>

definition undo_bid :: "room_state \<Rightarrow> room_state \<times> effect list" where
  "undo_bid s =
     (if length (bidHistory s) > 0 then
        let prev = last (bidHistory s);
            s' = s\<lparr>bidHistory := butlast (bidHistory s),
                    currentBid := bid prev, leadingTeamId := leader prev\<rparr>
        in (s', [Auction_state s'])
      else (s, []))"

definition toggle_pause :: "room_state \<Rightarrow> room_state \<times> effect list" where
  "toggle_pause s =
     (let s' = s\<lparr>status := (if status s = PAUSED then ACTIVE else PAUSED)\<rparr>
      in (s', [Auction_state s']))"

text \<open>
  \<^verbatim>\<open>sell_player\<close> and \<^verbatim>\<open>unsell_player\<close> broadcast first and then await the persistence
  gateway; \<open>db_ok\<close> is whether the awaited calls resolve. The identifiers and the price
  handed to the gateway are read before the await.

  \<^verbatim>\<open>sell_player\<close> awaits inside \<^verbatim>\<open>try { ... } catch (err) { console.error(err); }\<close>: when the
  gateway rejects, the error is logged and \<^verbatim>\<open>data_update\<close> is not sent.
\<close>

definition sell_player :: "bool \<Rightarrow> room_state \<Rightarrow> room_state \<times> effect list" where
  "sell_player db_ok s =
     (if truthy (currentPlayerId s) \<and> truthy (leadingTeamId s) then
        let s' = s\<lparr>status := SOLD, bidHistory := []\<rparr>
        in (s', [Auction_state s',
                 Player_sold (currentPlayerId s) (leadingTeamId s) (currentBid s),
                 Team_credit (leadingTeamId s) (currentBid s) (currentPlayerId s)]
                @ (if db_ok then [Data_update] else []))
      else (s, []))"

text \<open>
  \<^verbatim>\<open>unsell_player\<close> awaits with no \<^verbatim>\<open>try\<close> around it: when the gateway rejects, the
  handler's promise rejects and nothing catches it.
\<close>

definition unsell_player :: "bool \<Rightarrow> room_state \<Rightarrow> room_state \<times> effect list" where
  "unsell_player db_ok s =
     (if truthy (currentPlayerId s) then
        let s' = s\<lparr>status := UNSOLD\<rparr>
        in (s', [Auction_state s', Player_unsold (currentPlayerId s)]
                @ (if db_ok then [Data_update] else [Unhandled_rejection]))
      else (s, []))"

definition reset_round :: "room_state \<Rightarrow> room_state \<times> effect list" where
  "reset_round s =
     (let s' = s\<lparr>currentBid := 0, leadingTeamId := Null, currentPlayerId := Null,
                  status := IDLE\<rparr>
      in (s', [Auction_state s']))"

section \<open>The room registry\<close>

text \<open>
  \<^verbatim>\<open>auctionRooms\<close> is a \<^verbatim>\<open>Map\<close> from auction identifier to the room's state object.
  \<^verbatim>\<open>getRoomState\<close> stores the baseline for an unknown identifier and returns the stored
  object; the handlers then mutate that object in place, which the model writes back.
\<close>

type_synonym registry = "string \<rightharpoonup> room_state"

definition getRoomState :: "registry \<Rightarrow> string \<Rightarrow> registry \<times> room_state" where
  "getRoomState rooms auctionId =
     (case rooms auctionId of
        None \<Rightarrow> (rooms(auctionId \<mapsto> initial_state), initial_state)
      | Some s \<Rightarrow> (rooms, s))"

text \<open>
  The socket events. The flag of \<open>Sell_player\<close> and \<open>Unsell_player\<close> is not part of the
  payload: it is the outcome of the persistence calls the handler awaits.
\<close>

datatype action =
    Join_auction
  | Start_player jsid int
  | Place_bid jsid int
  | Undo_bid
  | Toggle_pause
  | Sell_player bool
  | Unsell_player bool
  | Reset_round

fun apply_action :: "action \<Rightarrow> room_state \<Rightarrow> room_state \<times> effect list" where
  "apply_action Join_auction s = join_auction s"
| "apply_action (Start_player playerId basePrice) s = start_player playerId basePrice s"
| "apply_action (Place_bid teamId amount) s = place_bid teamId amount s"
| "apply_action Undo_bid s = undo_bid s"
| "apply_action Toggle_pause s = toggle_pause s"
| "apply_action (Sell_player db_ok) s = sell_player db_ok s"
| "apply_action (Unsell_player db_ok) s = unsell_player db_ok s"
| "apply_action Reset_round s = reset_round s"

text \<open>
  One event: resolve the room, run the handler on it, tag the effects with the room.

  \<^verbatim>\<open>auctionRooms\<close> lives in the memory of the process. When a handler ends the process,
  every room is lost with it: what is left is the empty registry, which is what a process
  started afterwards begins with. The model places the end of the process at the event
  whose handler causes it.
\<close>

definition handle :: "registry \<Rightarrow> string \<times> action \<Rightarrow> registry \<times> (string \<times> effect) list" where
  "handle rooms ev =
     (let (rooms1, s) = getRoomState rooms (fst ev);
          (s', out) = apply_action (snd ev) s
      in (if Unhandled_rejection \<in> set out then Map.empty else rooms1(fst ev \<mapsto> s'),
          map (Pair (fst ev)) out))"

text \<open>Events are handled one at a time, in arrival order.\<close>

fun run :: "registry \<Rightarrow> (string \<times> action) list \<Rightarrow> registry" where
  "run rooms [] = rooms"
| "run rooms (ev # evs) = run (fst (handle rooms ev)) evs"

text \<open>The state a viewer of the room would be sent.\<close>

definition room_of :: "registry \<Rightarrow> string \<Rightarrow> room_state" where
  "room_of rooms auctionId = snd (getRoomState rooms auctionId)"

section \<open>Notions used to state the properties\<close>

text \<open>A bid is accepted when \<^verbatim>\<open>place_bid\<close> reaches its broadcast.\<close>

definition bid_accepted :: "jsid \<Rightarrow> int \<Rightarrow> room_state \<Rightarrow> bool" where
  "bid_accepted teamId amount s = (snd (place_bid teamId amount s) \<noteq> [])"

text \<open>A sequence of \<^verbatim>\<open>place_bid\<close> events on one room, nothing else in between.\<close>

fun run_bids :: "room_state \<Rightarrow> (jsid \<times> int) list \<Rightarrow> room_state" where
  "run_bids s [] = s"
| "run_bids s (b # bs) = run_bids (fst (place_bid (fst b) (snd b) s)) bs"

text \<open>The room before the \<open>i\<close>-th bid of the sequence (after all of them for \<open>i = length bs\<close>).\<close>

definition state_at :: "room_state \<Rightarrow> (jsid \<times> int) list \<Rightarrow> nat \<Rightarrow> room_state" where
  "state_at s bs i = run_bids s (take i bs)"

definition accepted_at :: "room_state \<Rightarrow> (jsid \<times> int) list \<Rightarrow> nat \<Rightarrow> bool" where
  "accepted_at s bs i = bid_accepted (fst (bs ! i)) (snd (bs ! i)) (state_at s bs i)"

text \<open>The handler of the event, run on this room, ends the process.\<close>

definition ends_process :: "action \<Rightarrow> room_state \<Rightarrow> bool" where
  "ends_process act s = (Unhandled_rejection \<in> set (snd (apply_action act s)))"

text \<open>The monetary inputs of an event are \<^verbatim>\<open>basePrice\<close> and \<^verbatim>\<open>amount\<close>.\<close>

fun nonneg_input :: "action \<Rightarrow> bool" where
  "nonneg_input (Start_player playerId basePrice) = (0 \<le> basePrice)"
| "nonneg_input (Place_bid teamId amount) = (0 \<le> amount)"
| "nonneg_input Join_auction = True"
| "nonneg_input Undo_bid = True"
| "nonneg_input Toggle_pause = True"
| "nonneg_input (Sell_player db_ok) = True"
| "nonneg_input (Unsell_player db_ok) = True"
| "nonneg_input Reset_round = True"

text \<open>
  The invariant behind \<open>currentBid \<ge> 0\<close>: \<^verbatim>\<open>undo_bid\<close> copies a frame back into
  \<^verbatim>\<open>currentBid\<close>, so the frames have to be non-negative too.
\<close>

definition room_ok :: "room_state \<Rightarrow> bool" where
  "room_ok s = (0 \<le> currentBid s \<and> list_all (\<lambda>f. 0 \<le> bid f) (bidHistory s))"

definition rooms_ok :: "registry \<Rightarrow> bool" where
  "rooms_ok rooms = (\<forall>a s. rooms a = Some s \<longrightarrow> room_ok s)"

section \<open>Facts about single handlers\<close>

lemmas handler_defs = join_auction_def start_player_def place_bid_def accept_bid_def
  undo_bid_def toggle_pause_def sell_player_def unsell_player_def reset_round_def

lemma bid_accepted_iff:
  "bid_accepted t a s \<longleftrightarrow>
     (if leadingTeamId s = Null then currentBid s \<le> a else currentBid s < a)"
  by (auto simp: bid_accepted_def place_bid_def accept_bid_def Let_def)

lemma place_bid_rejected: "\<not> bid_accepted t a s \<Longrightarrow> place_bid t a s = (s, [])"
  by (auto simp: bid_accepted_def place_bid_def accept_bid_def Let_def split: if_splits)

lemma place_bid_mono: "currentBid s \<le> currentBid (fst (place_bid t a s))"
  by (auto simp: place_bid_def accept_bid_def Let_def)

lemma place_bid_strict:
  "leadingTeamId s \<noteq> Null \<Longrightarrow> bid_accepted t a s \<Longrightarrow>
     currentBid s < currentBid (fst (place_bid t a s))"
  by (auto simp: bid_accepted_def place_bid_def accept_bid_def Let_def split: if_splits)

lemma place_bid_leader_kept:
  "t \<noteq> Null \<Longrightarrow> leadingTeamId s \<noteq> Null \<Longrightarrow> leadingTeamId (fst (place_bid t a s)) \<noteq> Null"
  by (auto simp: place_bid_def accept_bid_def Let_def)

lemma place_bid_leader_set:
  "t \<noteq> Null \<Longrightarrow> bid_accepted t a s \<Longrightarrow> leadingTeamId (fst (place_bid t a s)) \<noteq> Null"
  by (auto simp: bid_accepted_def place_bid_def accept_bid_def Let_def split: if_splits)

lemma reset_round_bidHistory: "bidHistory (fst (reset_round s)) = bidHistory s"
  by (simp add: reset_round_def Let_def)

section \<open>Facts about sequences of bids\<close>

lemma run_bids_append: "run_bids s (xs @ ys) = run_bids (run_bids s xs) ys"
  by (induction xs arbitrary: s) simp_all

lemma state_at_0: "state_at s bs 0 = s"
  by (simp add: state_at_def)

lemma state_at_Suc:
  "i < length bs \<Longrightarrow>
     state_at s bs (Suc i) = fst (place_bid (fst (bs ! i)) (snd (bs ! i)) (state_at s bs i))"
  by (simp add: state_at_def take_Suc_conv_app_nth run_bids_append)

lemma state_at_mono_step:
  "i < length bs \<Longrightarrow> currentBid (state_at s bs i) \<le> currentBid (state_at s bs (Suc i))"
  by (simp add: state_at_Suc place_bid_mono)

lemma state_at_mono:
  "i \<le> j \<Longrightarrow> j \<le> length bs \<Longrightarrow> currentBid (state_at s bs i) \<le> currentBid (state_at s bs j)"
proof (induction j)
  case 0
  then show ?case by simp
next
  case (Suc j)
  show ?case
  proof (cases "i = Suc j")
    case True
    then show ?thesis by simp
  next
    case False
    with Suc.prems have "i \<le> j" "j < length bs" by simp_all
    with Suc.IH have "currentBid (state_at s bs i) \<le> currentBid (state_at s bs j)" by simp
    also have "\<dots> \<le> currentBid (state_at s bs (Suc j))"
      using \<open>j < length bs\<close> by (rule state_at_mono_step)
    finally show ?thesis .
  qed
qed

text \<open>Once a leader is there, bids with a team keep one there.\<close>

lemma leader_persists:
  assumes teams: "\<forall>b\<in>set bs. fst b \<noteq> Null"
  shows "i \<le> j \<Longrightarrow> j \<le> length bs \<Longrightarrow> leadingTeamId (state_at s bs i) \<noteq> Null \<Longrightarrow>
         leadingTeamId (state_at s bs j) \<noteq> Null"
proof (induction j)
  case 0
  then show ?case by simp
next
  case (Suc j)
  show ?case
  proof (cases "i = Suc j")
    case True
    with Suc.prems show ?thesis by simp
  next
    case False
    with Suc.prems have ij: "i \<le> j" and j: "j < length bs" by simp_all
    from Suc.IH ij j Suc.prems have "leadingTeamId (state_at s bs j) \<noteq> Null" by simp
    moreover from teams j have "fst (bs ! j) \<noteq> Null" by simp
    ultimately show ?thesis
      using j by (simp add: state_at_Suc place_bid_leader_kept)
  qed
qed

text \<open>While there is still no leader, every bid so far was rejected.\<close>

lemma no_leader_no_change:
  assumes teams: "\<forall>b\<in>set bs. fst b \<noteq> Null"
  shows "i \<le> length bs \<Longrightarrow> leadingTeamId (state_at s bs i) = Null \<Longrightarrow> j \<le> i \<Longrightarrow>
         state_at s bs j = s"
proof (induction i arbitrary: j)
  case 0
  then show ?case by (simp add: state_at_0)
next
  case (Suc i)
  from Suc.prems have i: "i < length bs" by simp
  with teams have t: "fst (bs ! i) \<noteq> Null" by simp
  have rej: "\<not> bid_accepted (fst (bs ! i)) (snd (bs ! i)) (state_at s bs i)"
  proof
    assume "bid_accepted (fst (bs ! i)) (snd (bs ! i)) (state_at s bs i)"
    with t have "leadingTeamId (state_at s bs (Suc i)) \<noteq> Null"
      using i by (simp add: state_at_Suc place_bid_leader_set)
    with Suc.prems show False by simp
  qed
  then have same: "state_at s bs (Suc i) = state_at s bs i"
    using i by (simp add: state_at_Suc place_bid_rejected)
  with Suc.prems have "leadingTeamId (state_at s bs i) = Null" by simp
  with Suc.IH i have IH: "\<And>j. j \<le> i \<Longrightarrow> state_at s bs j = s" by simp
  show ?case
  proof (cases "j = Suc i")
    case True
    with same IH show ?thesis by simp
  next
    case False
    with Suc.prems IH show ?thesis by simp
  qed
qed

section \<open>Facts about the registry\<close>

text \<open>Only \<^verbatim>\<open>unsell_player\<close> with a rejecting gateway, on a room with a player, ends the process.\<close>

lemma ends_process_iff:
  "ends_process act s \<longleftrightarrow> act = Unsell_player False \<and> truthy (currentPlayerId s)"
  by (cases act) (auto simp: ends_process_def handler_defs Let_def)

lemma handle_exit:
  "ends_process act (room_of rooms A) \<Longrightarrow> fst (handle rooms (A, act)) = Map.empty"
  by (simp add: handle_def getRoomState_def room_of_def ends_process_def split_def Let_def
           split: option.splits)

lemma handle_other:
  "A \<noteq> B \<Longrightarrow> \<not> ends_process act (room_of rooms A) \<Longrightarrow>
     fst (handle rooms (A, act)) B = rooms B"
  by (simp add: handle_def getRoomState_def room_of_def ends_process_def split_def Let_def
           split: option.splits)

lemma handle_same:
  "\<not> ends_process act (room_of rooms B) \<Longrightarrow>
     fst (handle rooms (B, act)) B = Some (fst (apply_action act (room_of rooms B)))"
  by (simp add: handle_def getRoomState_def room_of_def ends_process_def split_def Let_def
           split: option.splits)

lemma room_of_cong: "rooms1 B = rooms2 B \<Longrightarrow> room_of rooms1 B = room_of rooms2 B"
  by (simp add: room_of_def getRoomState_def split: option.splits)

text \<open>
  Every event whose handler returns or catches its failure leaves the other rooms alone.
\<close>

lemma handle_other_room:
  "A \<noteq> B \<Longrightarrow> act \<noteq> Unsell_player False \<Longrightarrow>
     fst (handle rooms (A, act)) B = rooms B
     \<and> room_of (fst (handle rooms (A, act))) B = room_of rooms B"
proof -
  assume "A \<noteq> B" and "act \<noteq> Unsell_player False"
  then have "fst (handle rooms (A, act)) B = rooms B"
    by (simp add: handle_other ends_process_iff)
  moreover from this have "room_of (fst (handle rooms (A, act))) B = room_of rooms B"
    by (rule room_of_cong)
  ultimately show ?thesis by simp
qed

text \<open>
  As long as no \<^verbatim>\<open>unsell_player\<close> meets a rejecting gateway, what a run does to room \<open>B\<close>
  depends on room \<open>B\<close> and on the events tagged \<open>B\<close> only.
\<close>

lemma run_depends_on_own_room:
  "\<forall>ev\<in>set evs. snd ev \<noteq> Unsell_player False \<Longrightarrow> rooms1 B = rooms2 B \<Longrightarrow>
     run rooms1 evs B = run rooms2 (filter (\<lambda>ev. fst ev = B) evs) B"
proof (induction evs arbitrary: rooms1 rooms2)
  case Nil
  then show ?case by simp
next
  case (Cons ev evs)
  obtain A act where ev: "ev = (A, act)" by (cases ev)
  from Cons.prems ev have stays: "\<And>s. \<not> ends_process act s"
    and rest: "\<forall>ev\<in>set evs. snd ev \<noteq> Unsell_player False"
    by (simp_all add: ends_process_iff)
  show ?case
  proof (cases "A = B")
    case True
    from Cons.prems(2) have "room_of rooms1 B = room_of rooms2 B" by (rule room_of_cong)
    then have "fst (handle rooms1 (B, act)) B = fst (handle rooms2 (B, act)) B"
      by (simp add: handle_same stays)
    with rest have "run (fst (handle rooms1 (B, act))) evs B =
               run (fst (handle rooms2 (B, act))) (filter (\<lambda>ev. fst ev = B) evs) B"
      by (rule Cons.IH)
    then show ?thesis using True ev by simp
  next
    case False
    then have "fst (handle rooms1 (A, act)) B = rooms2 B"
      using Cons.prems by (simp add: handle_other stays)
    with rest have "run (fst (handle rooms1 (A, act))) evs B =
               run rooms2 (filter (\<lambda>ev. fst ev = B) evs) B"
      by (rule Cons.IH)
    then show ?thesis using False ev by simp
  qed
qed

section \<open>Non-negative bids\<close>

lemma room_ok_initial: "room_ok initial_state"
  by (simp add: room_ok_def initial_state_def)

lemma list_all_butlast: "list_all P xs \<Longrightarrow> list_all P (butlast xs)"
  by (induction xs) auto

lemma list_all_last: "list_all P xs \<Longrightarrow> xs \<noteq> [] \<Longrightarrow> P (last xs)"
  by (induction xs) auto

lemma room_ok_step: "room_ok s \<Longrightarrow> nonneg_input act \<Longrightarrow> room_ok (fst (apply_action act s))"
proof (cases act)
  case Undo_bid
  assume "room_ok s"
  then have h: "0 \<le> currentBid s" "list_all (\<lambda>f. 0 \<le> bid f) (bidHistory s)"
    by (simp_all add: room_ok_def)
  from h(2) have "list_all (\<lambda>f. 0 \<le> bid f) (butlast (bidHistory s))"
    by (rule list_all_butlast)
  moreover have "bidHistory s \<noteq> [] \<Longrightarrow> 0 \<le> bid (last (bidHistory s))"
    using h(2) by (rule list_all_last)
  ultimately show ?thesis using Undo_bid h
    by (simp add: room_ok_def undo_bid_def Let_def)
qed (auto simp: room_ok_def handler_defs Let_def)

lemma rooms_ok_handle:
  assumes "rooms_ok rooms" "nonneg_input (snd ev)"
  shows "rooms_ok (fst (handle rooms ev))"
proof -
  obtain A act where ev: "ev = (A, act)" by (cases ev)
  have "room_ok (room_of rooms A)"
    using assms(1)
    by (auto simp: room_of_def getRoomState_def rooms_ok_def room_ok_initial
             split: option.splits)
  with assms(2) ev have new: "room_ok (fst (apply_action act (room_of rooms A)))"
    by (simp add: room_ok_step)
  show ?thesis
  proof (cases "ends_process act (room_of rooms A)")
    case True
    then show ?thesis using ev by (simp add: handle_exit rooms_ok_def)
  next
    case stays: False
    show ?thesis
      unfolding rooms_ok_def
    proof (intro allI impI)
      fix a s
      assume h: "fst (handle rooms ev) a = Some s"
      show "room_ok s"
      proof (cases "a = A")
        case True
        with h ev new stays show ?thesis by (simp add: handle_same)
      next
        case False
        with h ev stays have "rooms a = Some s" by (simp add: handle_other)
        with assms(1) show ?thesis by (simp add: rooms_ok_def)
      qed
    qed
  qed
qed

lemma rooms_ok_run:
  "rooms_ok rooms \<Longrightarrow> \<forall>ev\<in>set evs. nonneg_input (snd ev) \<Longrightarrow> rooms_ok (run rooms evs)"
  by (induction evs arbitrary: rooms) (simp_all add: rooms_ok_handle)

section \<open>The claims\<close>

text \<open>
  C1, as stated, fails: \<^verbatim>\<open>place_bid\<close> never reads \<^verbatim>\<open>state.status\<close>. On a paused room
  with a standing price of 100 and no leader, a bid of 150 is applied and broadcast.
\<close>

theorem place_bid_paused_counterexample:
  "status \<lparr>currentBid = 100, leadingTeamId = Null, currentPlayerId = Id ''p1'',
           status = PAUSED, bidHistory = []\<rparr> \<noteq> ACTIVE
   \<and> place_bid (Id ''teamA'') 150
       \<lparr>currentBid = 100, leadingTeamId = Null, currentPlayerId = Id ''p1'',
        status = PAUSED, bidHistory = []\<rparr>
     = (\<lparr>currentBid = 150, leadingTeamId = Id ''teamA'', currentPlayerId = Id ''p1'',
         status = PAUSED, bidHistory = [\<lparr>bid = 100, leader = Null\<rparr>]\<rparr>,
        [Auction_state
          \<lparr>currentBid = 150, leadingTeamId = Id ''teamA'', currentPlayerId = Id ''p1'',
           status = PAUSED, bidHistory = [\<lparr>bid = 100, leader = Null\<rparr>]\<rparr>])"
  by (simp add: place_bid_def accept_bid_def Let_def)

text \<open>
  C1, amended: on a room whose status is not \<open>ACTIVE\<close>, \<^verbatim>\<open>place_bid\<close> is decided by the
  amount alone, as on an active room. It is rejected silently (the room state entirely
  unchanged, no \<^verbatim>\<open>auction_state\<close> broadcast) when the amount is below \<open>currentBid\<close> with no
  leader, or not above it with a leader; otherwise it is applied and broadcast, and
  \<open>status\<close> and \<open>currentPlayerId\<close> keep their values.
\<close>

theorem place_bid_any_status:
  assumes "status s \<noteq> ACTIVE"
  shows "place_bid teamId amount s =
           (if (if leadingTeamId s = Null then amount < currentBid s
                else amount \<le> currentBid s)
            then (s, [])
            else let s' = s\<lparr>bidHistory :=
                               bidHistory s @ [\<lparr>bid = currentBid s, leader = leadingTeamId s\<rparr>],
                             currentBid := amount, leadingTeamId := teamId\<rparr>
                 in (s', [Auction_state s']))
       \<and> status (fst (place_bid teamId amount s)) = status s
       \<and> currentPlayerId (fst (place_bid teamId amount s)) = currentPlayerId s"
  by (simp add: place_bid_def accept_bid_def Let_def)

theorem place_bid_any_status_witness:
  "status (initial_state\<lparr>status := PAUSED, currentBid := 100\<rparr>) \<noteq> ACTIVE
   \<and> place_bid (Id ''teamA'') 99 (initial_state\<lparr>status := PAUSED, currentBid := 100\<rparr>)
       = (initial_state\<lparr>status := PAUSED, currentBid := 100\<rparr>, [])
   \<and> status (fst (place_bid (Id ''teamA'') 100
                 (initial_state\<lparr>status := PAUSED, currentBid := 100\<rparr>))) = PAUSED"
  using place_bid_any_status [of "initial_state\<lparr>status := PAUSED, currentBid := 100\<rparr>"
                                 "Id ''teamA''" 99]
        place_bid_any_status [of "initial_state\<lparr>status := PAUSED, currentBid := 100\<rparr>"
                                 "Id ''teamA''" 100]
  by (simp add: initial_state_def Let_def)

text \<open>
  C2: \<^verbatim>\<open>reset_round\<close> assigns \<open>currentBid\<close>, \<open>leadingTeamId\<close>, \<open>currentPlayerId\<close> and
  \<open>status\<close>, and not \<open>bidHistory\<close>. After a round opened at 100 with one bid of 100,
  \<^verbatim>\<open>reset_round\<close> leaves the frame of that bid in the history, and the \<^verbatim>\<open>undo_bid\<close> that
  follows pops it: the idle room shows a bid of 100 again, and the undo is broadcast.
\<close>

theorem reset_round_keeps_history:
  "fst (reset_round
         (fst (place_bid (Id ''teamA'') 100
                (fst (start_player (Id ''p1'') 100 initial_state)))))
     = \<lparr>currentBid = 0, leadingTeamId = Null, currentPlayerId = Null, status = IDLE,
        bidHistory = [\<lparr>bid = 100, leader = Null\<rparr>]\<rparr>
   \<and> undo_bid
       (fst (reset_round
              (fst (place_bid (Id ''teamA'') 100
                     (fst (start_player (Id ''p1'') 100 initial_state))))))
     = (\<lparr>currentBid = 100, leadingTeamId = Null, currentPlayerId = Null, status = IDLE,
         bidHistory = []\<rparr>,
        [Auction_state
          \<lparr>currentBid = 100, leadingTeamId = Null, currentPlayerId = Null, status = IDLE,
           bidHistory = []\<rparr>])"
  by (simp add: reset_round_def place_bid_def accept_bid_def start_player_def undo_bid_def
                initial_state_def Let_def)

text \<open>
  C3, as stated, fails: \<^verbatim>\<open>toggle_pause\<close> tests for \<open>PAUSED\<close> only, so an idle room becomes
  paused, and a second toggle makes it active.
\<close>

theorem toggle_pause_idle_counterexample:
  "status initial_state = IDLE
   \<and> status (fst (toggle_pause initial_state)) = PAUSED
   \<and> status (fst (toggle_pause (fst (toggle_pause initial_state)))) = ACTIVE"
  by (simp add: toggle_pause_def initial_state_def Let_def)

text \<open>
  C3, amended: \<^verbatim>\<open>toggle_pause\<close> sets \<open>status\<close> to \<open>ACTIVE\<close> when it is \<open>PAUSED\<close> and to
  \<open>PAUSED\<close> for every other status, changes no other field and always broadcasts.
  Applied twice it gives the room back as it was when \<open>status\<close> was \<open>ACTIVE\<close> or \<open>PAUSED\<close>;
  from any other status it leaves the room \<open>ACTIVE\<close>, no other field changed.
\<close>

theorem toggle_pause_flips:
  "toggle_pause s =
     (s\<lparr>status := (if status s = PAUSED then ACTIVE else PAUSED)\<rparr>,
      [Auction_state (s\<lparr>status := (if status s = PAUSED then ACTIVE else PAUSED)\<rparr>)])
   \<and> (status s = ACTIVE \<or> status s = PAUSED \<longrightarrow>
        fst (toggle_pause (fst (toggle_pause s))) = s)
   \<and> (status s \<noteq> ACTIVE \<and> status s \<noteq> PAUSED \<longrightarrow>
        fst (toggle_pause (fst (toggle_pause s))) = s\<lparr>status := ACTIVE\<rparr>)"
  by (auto simp: toggle_pause_def Let_def)

theorem toggle_pause_flips_witness:
  "status (fst (start_player (Id ''p1'') 100 initial_state)) = ACTIVE
   \<and> status (fst (toggle_pause (fst (start_player (Id ''p1'') 100 initial_state)))) = PAUSED
   \<and> fst (toggle_pause (fst (toggle_pause (fst (start_player (Id ''p1'') 100 initial_state)))))
       = fst (start_player (Id ''p1'') 100 initial_state)
   \<and> status (fst (reset_round initial_state)) \<noteq> ACTIVE
   \<and> status (fst (reset_round initial_state)) \<noteq> PAUSED
   \<and> fst (toggle_pause (fst (toggle_pause (fst (reset_round initial_state)))))
       = (fst (reset_round initial_state))\<lparr>status := ACTIVE\<rparr>"
  using toggle_pause_flips [of "fst (start_player (Id ''p1'') 100 initial_state)"]
        toggle_pause_flips [of "fst (reset_round initial_state)"]
  by (simp add: handler_defs initial_state_def Let_def)

text \<open>
  C4: on an active room with no leader (\<open>leadingTeamId\<close> is \<^verbatim>\<open>null\<close>) a bid of at least
  \<open>currentBid\<close> is accepted and a lower one rejected; with a leader a bid above
  \<open>currentBid\<close> is accepted and one equal to or below it rejected. An accepted bid pushes
  the previous \<open>(currentBid, leadingTeamId)\<close> onto \<open>bidHistory\<close>, sets \<open>currentBid\<close> to the
  amount and \<open>leadingTeamId\<close> to the team, and is broadcast; a rejected one changes nothing
  and sends nothing.
\<close>

theorem place_bid_ordering:
  assumes "status s = ACTIVE"
  shows "(leadingTeamId s = Null \<and> currentBid s \<le> amount
          \<or> leadingTeamId s \<noteq> Null \<and> currentBid s < amount \<longrightarrow>
            place_bid teamId amount s =
              (let s' = s\<lparr>bidHistory :=
                             bidHistory s @ [\<lparr>bid = currentBid s, leader = leadingTeamId s\<rparr>],
                           currentBid := amount, leadingTeamId := teamId\<rparr>
               in (s', [Auction_state s'])))
       \<and> (leadingTeamId s = Null \<and> amount < currentBid s
          \<or> leadingTeamId s \<noteq> Null \<and> amount \<le> currentBid s \<longrightarrow>
            place_bid teamId amount s = (s, []))"
  by (auto simp: place_bid_def accept_bid_def Let_def)

theorem place_bid_ordering_witness:
  "status (fst (start_player (Id ''p1'') 100 initial_state)) = ACTIVE
   \<and> fst (place_bid (Id ''teamA'') 100 (fst (start_player (Id ''p1'') 100 initial_state)))
       = \<lparr>currentBid = 100, leadingTeamId = Id ''teamA'', currentPlayerId = Id ''p1'',
          status = ACTIVE, bidHistory = [\<lparr>bid = 100, leader = Null\<rparr>]\<rparr>
   \<and> place_bid (Id ''teamA'') 99 (fst (start_player (Id ''p1'') 100 initial_state))
       = (fst (start_player (Id ''p1'') 100 initial_state), [])
   \<and> place_bid (Id ''teamB'') 100
       \<lparr>currentBid = 100, leadingTeamId = Id ''teamA'', currentPlayerId = Id ''p1'',
        status = ACTIVE, bidHistory = [\<lparr>bid = 100, leader = Null\<rparr>]\<rparr>
       = (\<lparr>currentBid = 100, leadingTeamId = Id ''teamA'', currentPlayerId = Id ''p1'',
           status = ACTIVE, bidHistory = [\<lparr>bid = 100, leader = Null\<rparr>]\<rparr>, [])
   \<and> fst (place_bid (Id ''teamB'') 150
       \<lparr>currentBid = 100, leadingTeamId = Id ''teamA'', currentPlayerId = Id ''p1'',
        status = ACTIVE, bidHistory = [\<lparr>bid = 100, leader = Null\<rparr>]\<rparr>)
       = \<lparr>currentBid = 150, leadingTeamId = Id ''teamB'', currentPlayerId = Id ''p1'',
           status = ACTIVE,
           bidHistory = [\<lparr>bid = 100, leader = Null\<rparr>, \<lparr>bid = 100, leader = Id ''teamA''\<rparr>]\<rparr>"
  using place_bid_ordering [of "fst (start_player (Id ''p1'') 100 initial_state)"
                               100 "Id ''teamA''"]
        place_bid_ordering [of "fst (start_player (Id ''p1'') 100 initial_state)"
                               99 "Id ''teamA''"]
        place_bid_ordering [of "\<lparr>currentBid = 100, leadingTeamId = Id ''teamA'',
                                 currentPlayerId = Id ''p1'', status = ACTIVE,
                                 bidHistory = [\<lparr>bid = 100, leader = Null\<rparr>]\<rparr>"
                               100 "Id ''teamB''"]
        place_bid_ordering [of "\<lparr>currentBid = 100, leadingTeamId = Id ''teamA'',
                                 currentPlayerId = Id ''p1'', status = ACTIVE,
                                 bidHistory = [\<lparr>bid = 100, leader = Null\<rparr>]\<rparr>"
                               150 "Id ''teamB''"]
  by (simp add: handler_defs initial_state_def Let_def)

text \<open>
  C5: \<^verbatim>\<open>undo_bid\<close> right after an accepted \<^verbatim>\<open>place_bid\<close> gives the room back as it was
  before the bid (\<open>currentBid\<close>, \<open>leadingTeamId\<close> and \<open>bidHistory\<close> among the fields) and
  broadcasts it; with an empty \<open>bidHistory\<close>, \<^verbatim>\<open>undo_bid\<close> changes nothing and sends nothing.
\<close>

theorem undo_bid_inverts_place_bid:
  "(bid_accepted teamId amount s \<longrightarrow>
      undo_bid (fst (place_bid teamId amount s)) = (s, [Auction_state s]))
   \<and> (bidHistory s = [] \<longrightarrow> undo_bid s = (s, []))"
  by (auto simp: bid_accepted_def place_bid_def accept_bid_def undo_bid_def Let_def
           split: if_splits)

theorem undo_bid_inverts_place_bid_witness:
  "bid_accepted (Id ''teamB'') 150
     \<lparr>currentBid = 100, leadingTeamId = Id ''teamA'', currentPlayerId = Id ''p1'',
      status = ACTIVE, bidHistory = [\<lparr>bid = 100, leader = Null\<rparr>]\<rparr>
   \<and> fst (place_bid (Id ''teamB'') 150
       \<lparr>currentBid = 100, leadingTeamId = Id ''teamA'', currentPlayerId = Id ''p1'',
        status = ACTIVE, bidHistory = [\<lparr>bid = 100, leader = Null\<rparr>]\<rparr>)
     = \<lparr>currentBid = 150, leadingTeamId = Id ''teamB'', currentPlayerId = Id ''p1'',
        status = ACTIVE,
        bidHistory = [\<lparr>bid = 100, leader = Null\<rparr>, \<lparr>bid = 100, leader = Id ''teamA''\<rparr>]\<rparr>
   \<and> fst (undo_bid (fst (place_bid (Id ''teamB'') 150
       \<lparr>currentBid = 100, leadingTeamId = Id ''teamA'', currentPlayerId = Id ''p1'',
        status = ACTIVE, bidHistory = [\<lparr>bid = 100, leader = Null\<rparr>]\<rparr>)))
     = \<lparr>currentBid = 100, leadingTeamId = Id ''teamA'', currentPlayerId = Id ''p1'',
        status = ACTIVE, bidHistory = [\<lparr>bid = 100, leader = Null\<rparr>]\<rparr>
   \<and> bidHistory (fst (start_player (Id ''p1'') 100 initial_state)) = []
   \<and> undo_bid (fst (start_player (Id ''p1'') 100 initial_state))
     = (fst (start_player (Id ''p1'') 100 initial_state), [])"
  using undo_bid_inverts_place_bid
          [of "Id ''teamB''" 150
              "\<lparr>currentBid = 100, leadingTeamId = Id ''teamA'', currentPlayerId = Id ''p1'',
                status = ACTIVE, bidHistory = [\<lparr>bid = 100, leader = Null\<rparr>]\<rparr>"]
        undo_bid_inverts_place_bid
          [of Null 0 "fst (start_player (Id ''p1'') 100 initial_state)"]
  by (simp add: bid_accepted_def handler_defs initial_state_def Let_def)

text \<open>
  C6: when \<open>leadingTeamId\<close> or \<open>currentPlayerId\<close> is \<^verbatim>\<open>null\<close>, \<^verbatim>\<open>sell_player\<close> changes
  nothing, broadcasts nothing and calls the persistence gateway for nothing. When both are
  set (the handler's test \<^verbatim>\<open>currentPlayerId && leadingTeamId\<close>: each a non-empty
  identifier), it sets \<open>status\<close> to \<open>SOLD\<close> and empties \<open>bidHistory\<close>, leaves the other
  fields as they are, broadcasts the room, and hands the player, the team and the price to
  the gateway; \<^verbatim>\<open>data_update\<close> follows when the gateway calls resolve.
\<close>

theorem sell_player_precondition:
  "(leadingTeamId s = Null \<or> currentPlayerId s = Null \<longrightarrow> sell_player db_ok s = (s, []))
   \<and> (truthy (currentPlayerId s) \<and> truthy (leadingTeamId s) \<longrightarrow>
        sell_player db_ok s =
          (s\<lparr>status := SOLD, bidHistory := []\<rparr>,
           [Auction_state (s\<lparr>status := SOLD, bidHistory := []\<rparr>),
            Player_sold (currentPlayerId s) (leadingTeamId s) (currentBid s),
            Team_credit (leadingTeamId s) (currentBid s) (currentPlayerId s)]
           @ (if db_ok then [Data_update] else [])))"
  by (auto simp: sell_player_def Let_def)

theorem sell_player_precondition_witness:
  "leadingTeamId (fst (start_player (Id ''p1'') 100 initial_state)) = Null
   \<and> sell_player True (fst (start_player (Id ''p1'') 100 initial_state))
     = (fst (start_player (Id ''p1'') 100 initial_state), [])
   \<and> truthy (currentPlayerId
       \<lparr>currentBid = 100, leadingTeamId = Id ''teamA'', currentPlayerId = Id ''p1'',
        status = ACTIVE, bidHistory = [\<lparr>bid = 100, leader = Null\<rparr>]\<rparr>)
   \<and> truthy (leadingTeamId
       \<lparr>currentBid = 100, leadingTeamId = Id ''teamA'', currentPlayerId = Id ''p1'',
        status = ACTIVE, bidHistory = [\<lparr>bid = 100, leader = Null\<rparr>]\<rparr>)
   \<and> sell_player True
       \<lparr>currentBid = 100, leadingTeamId = Id ''teamA'', currentPlayerId = Id ''p1'',
        status = ACTIVE, bidHistory = [\<lparr>bid = 100, leader = Null\<rparr>]\<rparr>
     = (\<lparr>currentBid = 100, leadingTeamId = Id ''teamA'', currentPlayerId = Id ''p1'',
         status = SOLD, bidHistory = []\<rparr>,
        [Auction_state
           \<lparr>currentBid = 100, leadingTeamId = Id ''teamA'', currentPlayerId = Id ''p1'',
            status = SOLD, bidHistory = []\<rparr>,
         Player_sold (Id ''p1'') (Id ''teamA'') 100,
         Team_credit (Id ''teamA'') 100 (Id ''p1''),
         Data_update])"
  using sell_player_precondition
          [of "fst (start_player (Id ''p1'') 100 initial_state)" True]
        sell_player_precondition
          [of "\<lparr>currentBid = 100, leadingTeamId = Id ''teamA'', currentPlayerId = Id ''p1'',
                status = ACTIVE, bidHistory = [\<lparr>bid = 100, leader = Null\<rparr>]\<rparr>" True]
  by (simp add: handler_defs initial_state_def Let_def)

text \<open>
  C7, as stated, fails: a bid whose \<^verbatim>\<open>teamId\<close> is \<^verbatim>\<open>null\<close> is accepted and leaves the room
  without a leader, so the next bid is accepted at the same amount. In a round opened at
  100, the bids \<open>(null, 100)\<close> and \<open>(teamA, 100)\<close> are both accepted and the second one does
  not raise \<open>currentBid\<close>.
\<close>

theorem place_bid_sequence_counterexample:
  "status (fst (start_player (Id ''p1'') 100 initial_state)) = ACTIVE
   \<and> accepted_at (fst (start_player (Id ''p1'') 100 initial_state))
        [(Null, 100), (Id ''teamA'', 100)] 0
   \<and> accepted_at (fst (start_player (Id ''p1'') 100 initial_state))
        [(Null, 100), (Id ''teamA'', 100)] 1
   \<and> currentBid (state_at (fst (start_player (Id ''p1'') 100 initial_state))
        [(Null, 100), (Id ''teamA'', 100)] 1) = 100
   \<and> currentBid (state_at (fst (start_player (Id ''p1'') 100 initial_state))
        [(Null, 100), (Id ''teamA'', 100)] 2) = 100"
  by (simp add: accepted_at_def state_at_def bid_accepted_def handler_defs initial_state_def
                Let_def)

text \<open>
  C7, amended: for every sequence of \<^verbatim>\<open>place_bid\<close> calls applied to a room with nothing
  else in between, \<open>currentBid\<close> never decreases, and every accepted bid placed while
  \<open>leadingTeamId\<close> is not \<^verbatim>\<open>null\<close> raises it strictly. When no \<^verbatim>\<open>teamId\<close> of the sequence is
  \<^verbatim>\<open>null\<close>, every accepted bid that comes after an accepted bid raises it strictly, and the
  \<open>currentBid\<close> an accepted bid sets is the one the sequence started from (the base price)
  or is above every \<open>currentBid\<close> the room had before that bid. The status of the room
  plays no part.
\<close>

theorem place_bid_sequence_increasing:
  "(\<forall>i j. i \<le> j \<and> j \<le> length bs \<longrightarrow>
      currentBid (state_at s bs i) \<le> currentBid (state_at s bs j))
   \<and> (\<forall>i. i < length bs \<and> accepted_at s bs i \<and> leadingTeamId (state_at s bs i) \<noteq> Null \<longrightarrow>
        currentBid (state_at s bs i) < currentBid (state_at s bs (Suc i)))
   \<and> ((\<forall>b\<in>set bs. fst b \<noteq> Null) \<longrightarrow>
        (\<forall>i j. j < i \<and> i < length bs \<and> accepted_at s bs j \<and> accepted_at s bs i \<longrightarrow>
           currentBid (state_at s bs i) < currentBid (state_at s bs (Suc i)))
      \<and> (\<forall>i. i < length bs \<and> accepted_at s bs i \<longrightarrow>
           currentBid (state_at s bs (Suc i)) = currentBid s
         \<or> (\<forall>j\<le>i. currentBid (state_at s bs j) < currentBid (state_at s bs (Suc i)))))"
proof (intro conjI allI impI)
  fix i j
  assume "i \<le> j \<and> j \<le> length bs"
  then show "currentBid (state_at s bs i) \<le> currentBid (state_at s bs j)"
    by (simp add: state_at_mono)
next
  fix i
  assume "i < length bs \<and> accepted_at s bs i \<and> leadingTeamId (state_at s bs i) \<noteq> Null"
  then show "currentBid (state_at s bs i) < currentBid (state_at s bs (Suc i))"
    by (simp add: accepted_at_def state_at_Suc place_bid_strict)
next
  fix i j
  assume teams: "\<forall>b\<in>set bs. fst b \<noteq> Null"
  assume h: "j < i \<and> i < length bs \<and> accepted_at s bs j \<and> accepted_at s bs i"
  then have j: "j < length bs" by simp
  with teams have "fst (bs ! j) \<noteq> Null" by simp
  with h j have "leadingTeamId (state_at s bs (Suc j)) \<noteq> Null"
    by (simp add: accepted_at_def state_at_Suc place_bid_leader_set)
  with h have "leadingTeamId (state_at s bs i) \<noteq> Null"
    using leader_persists [OF teams, of "Suc j" i s] by simp
  with h show "currentBid (state_at s bs i) < currentBid (state_at s bs (Suc i))"
    by (simp add: accepted_at_def state_at_Suc place_bid_strict)
next
  fix i
  assume teams: "\<forall>b\<in>set bs. fst b \<noteq> Null"
  assume h: "i < length bs \<and> accepted_at s bs i"
  show "currentBid (state_at s bs (Suc i)) = currentBid s
          \<or> (\<forall>j\<le>i. currentBid (state_at s bs j) < currentBid (state_at s bs (Suc i)))"
  proof (cases "leadingTeamId (state_at s bs i) = Null")
    case False
    with h have "currentBid (state_at s bs i) < currentBid (state_at s bs (Suc i))"
      by (simp add: accepted_at_def state_at_Suc place_bid_strict)
    moreover have "\<forall>j\<le>i. currentBid (state_at s bs j) \<le> currentBid (state_at s bs i)"
      using h by (simp add: state_at_mono)
    ultimately show ?thesis by fastforce
  next
    case True
    with h have all: "\<forall>j\<le>i. state_at s bs j = s"
      using no_leader_no_change [OF teams, of i s] by simp
    have "currentBid s \<le> currentBid (state_at s bs (Suc i))"
      using h state_at_mono [of 0 "Suc i" bs s] by (simp add: state_at_0)
    with all show ?thesis by fastforce
  qed
qed

text \<open>
  The sequence without a \<^verbatim>\<open>null\<close> team is the one of the specification: opened at 100,
  \<open>teamA\<close> bids 100 (accepted), \<open>teamB\<close> bids 100 (rejected), \<open>teamB\<close> bids 150 (accepted
  and above). The sequence with a \<^verbatim>\<open>null\<close> team still never decreases.
\<close>

theorem place_bid_sequence_increasing_witness:
  "Id ''teamA'' \<noteq> Null \<and> Id ''teamB'' \<noteq> Null
   \<and> accepted_at (fst (start_player (Id ''p1'') 100 initial_state))
        [(Id ''teamA'', 100), (Id ''teamB'', 100), (Id ''teamB'', 150)] 0
   \<and> \<not> accepted_at (fst (start_player (Id ''p1'') 100 initial_state))
        [(Id ''teamA'', 100), (Id ''teamB'', 100), (Id ''teamB'', 150)] 1
   \<and> accepted_at (fst (start_player (Id ''p1'') 100 initial_state))
        [(Id ''teamA'', 100), (Id ''teamB'', 100), (Id ''teamB'', 150)] 2
   \<and> currentBid (state_at (fst (start_player (Id ''p1'') 100 initial_state))
        [(Id ''teamA'', 100), (Id ''teamB'', 100), (Id ''teamB'', 150)] 0)
     \<le> currentBid (state_at (fst (start_player (Id ''p1'') 100 initial_state))
        [(Id ''teamA'', 100), (Id ''teamB'', 100), (Id ''teamB'', 150)] 1)
   \<and> currentBid (state_at (fst (start_player (Id ''p1'') 100 initial_state))
        [(Id ''teamA'', 100), (Id ''teamB'', 100), (Id ''teamB'', 150)] 2)
     < currentBid (state_at (fst (start_player (Id ''p1'') 100 initial_state))
        [(Id ''teamA'', 100), (Id ''teamB'', 100), (Id ''teamB'', 150)] (Suc 2))
   \<and> currentBid (state_at (fst (start_player (Id ''p1'') 100 initial_state))
        [(Null, 100), (Id ''teamA'', 100)] 0)
     \<le> currentBid (state_at (fst (start_player (Id ''p1'') 100 initial_state))
        [(Null, 100), (Id ''teamA'', 100)] 2)"
proof -
  have teams: "\<forall>b\<in>set [(Id ''teamA'', 100::int), (Id ''teamB'', 100), (Id ''teamB'', 150)].
                 fst b \<noteq> Null"
    by simp
  have acc: "accepted_at (fst (start_player (Id ''p1'') 100 initial_state))
        [(Id ''teamA'', 100), (Id ''teamB'', 100), (Id ''teamB'', 150)] 0
   \<and> \<not> accepted_at (fst (start_player (Id ''p1'') 100 initial_state))
        [(Id ''teamA'', 100), (Id ''teamB'', 100), (Id ''teamB'', 150)] 1
   \<and> accepted_at (fst (start_player (Id ''p1'') 100 initial_state))
        [(Id ''teamA'', 100), (Id ''teamB'', 100), (Id ''teamB'', 150)] 2"
    by (simp add: accepted_at_def state_at_def bid_accepted_def handler_defs initial_state_def
                  Let_def)
  note with_teams = place_bid_sequence_increasing
    [of "[(Id ''teamA'', 100), (Id ''teamB'', 100), (Id ''teamB'', 150)]"
        "fst (start_player (Id ''p1'') 100 initial_state)"]
  note with_null = place_bid_sequence_increasing
    [of "[(Null, 100), (Id ''teamA'', 100)]"
        "fst (start_player (Id ''p1'') 100 initial_state)"]
  from with_teams [THEN conjunct1, rule_format, of 0 1]
       with_teams [THEN conjunct2, THEN conjunct2, THEN mp, OF teams, THEN conjunct1,
                   rule_format, of 0 2]
       with_null [THEN conjunct1, rule_format, of 0 2]
       acc
  show ?thesis by simp
qed

text \<open>
  C8: rooms are not isolated from a failing \<^verbatim>\<open>unsell_player\<close>. Rooms \<open>a1\<close> and \<open>a2\<close> each
  have a round running with one bid, \<open>a2\<close> at 70 by \<open>teamX\<close>. \<^verbatim>\<open>unsell_player\<close> for \<open>a1\<close>
  broadcasts \<open>UNSOLD\<close> and awaits the gateway; the gateway rejects, nothing catches the
  rejection, and the process ends. Room \<open>a2\<close> is gone with the registry: its bid and its
  leader are lost, and a viewer joining \<open>a2\<close> afterwards is sent the baseline. The same
  failure in \<^verbatim>\<open>sell_player\<close> for \<open>a1\<close> is caught and leaves room \<open>a2\<close> as it is.
\<close>

theorem unsell_player_rejection_loses_rooms:
  "room_of (run Map.empty
      [(''a1'', Start_player (Id ''p1'') 100), (''a2'', Start_player (Id ''p2'') 50),
       (''a1'', Place_bid (Id ''teamA'') 100), (''a2'', Place_bid (Id ''teamX'') 70)]) ''a2''
     = \<lparr>currentBid = 70, leadingTeamId = Id ''teamX'', currentPlayerId = Id ''p2'',
        status = ACTIVE, bidHistory = [\<lparr>bid = 50, leader = Null\<rparr>]\<rparr>
   \<and> snd (handle (run Map.empty
      [(''a1'', Start_player (Id ''p1'') 100), (''a2'', Start_player (Id ''p2'') 50),
       (''a1'', Place_bid (Id ''teamA'') 100), (''a2'', Place_bid (Id ''teamX'') 70)])
      (''a1'', Unsell_player False))
     = [(''a1'', Auction_state
           \<lparr>currentBid = 100, leadingTeamId = Id ''teamA'', currentPlayerId = Id ''p1'',
            status = UNSOLD, bidHistory = [\<lparr>bid = 100, leader = Null\<rparr>]\<rparr>),
        (''a1'', Player_unsold (Id ''p1'')),
        (''a1'', Unhandled_rejection)]
   \<and> fst (handle (run Map.empty
      [(''a1'', Start_player (Id ''p1'') 100), (''a2'', Start_player (Id ''p2'') 50),
       (''a1'', Place_bid (Id ''teamA'') 100), (''a2'', Place_bid (Id ''teamX'') 70)])
      (''a1'', Unsell_player False)) ''a2'' = None
   \<and> room_of (fst (handle (run Map.empty
      [(''a1'', Start_player (Id ''p1'') 100), (''a2'', Start_player (Id ''p2'') 50),
       (''a1'', Place_bid (Id ''teamA'') 100), (''a2'', Place_bid (Id ''teamX'') 70)])
      (''a1'', Unsell_player False))) ''a2''
     = \<lparr>currentBid = 0, leadingTeamId = Null, currentPlayerId = Null, status = IDLE,
        bidHistory = []\<rparr>
   \<and> snd (handle (run Map.empty
      [(''a1'', Start_player (Id ''p1'') 100), (''a2'', Start_player (Id ''p2'') 50),
       (''a1'', Place_bid (Id ''teamA'') 100), (''a2'', Place_bid (Id ''teamX'') 70)])
      (''a1'', Sell_player False))
     = [(''a1'', Auction_state
           \<lparr>currentBid = 100, leadingTeamId = Id ''teamA'', currentPlayerId = Id ''p1'',
            status = SOLD, bidHistory = []\<rparr>),
        (''a1'', Player_sold (Id ''p1'') (Id ''teamA'') 100),
        (''a1'', Team_credit (Id ''teamA'') 100 (Id ''p1''))]
   \<and> room_of (fst (handle (run Map.empty
      [(''a1'', Start_player (Id ''p1'') 100), (''a2'', Start_player (Id ''p2'') 50),
       (''a1'', Place_bid (Id ''teamA'') 100), (''a2'', Place_bid (Id ''teamX'') 70)])
      (''a1'', Sell_player False))) ''a2''
     = \<lparr>currentBid = 70, leadingTeamId = Id ''teamX'', currentPlayerId = Id ''p2'',
        status = ACTIVE, bidHistory = [\<lparr>bid = 50, leader = Null\<rparr>]\<rparr>"
  by (simp add: room_of_def handle_def getRoomState_def handler_defs initial_state_def Let_def)

text \<open>
  C9: \<open>currentBid \<ge> 0\<close> holds in the state a room is created with, and, as long as every
  \<^verbatim>\<open>basePrice\<close> and every \<^verbatim>\<open>amount\<close> received is non-negative, in every room after every
  sequence of events (each of the handlers, on any rooms, in any order).
\<close>

theorem currentBid_nonneg:
  assumes "\<forall>ev\<in>set evs. nonneg_input (snd ev)"
  shows "0 \<le> currentBid initial_state
       \<and> 0 \<le> currentBid (room_of (run Map.empty evs) auctionId)"
proof -
  have "rooms_ok Map.empty" by (simp add: rooms_ok_def)
  with assms have "rooms_ok (run Map.empty evs)" by (simp add: rooms_ok_run)
  then have "room_ok (room_of (run Map.empty evs) auctionId)"
    by (auto simp: room_of_def getRoomState_def rooms_ok_def room_ok_initial
             split: option.splits)
  then show ?thesis by (simp add: room_ok_def initial_state_def)
qed

theorem currentBid_nonneg_witness:
  "nonneg_input (Start_player (Id ''p1'') 100)
   \<and> nonneg_input (Place_bid (Id ''teamA'') 120)
   \<and> nonneg_input Undo_bid
   \<and> 0 \<le> currentBid (room_of (run Map.empty
        [(''a1'', Start_player (Id ''p1'') 100), (''a1'', Place_bid (Id ''teamA'') 120),
         (''a1'', Undo_bid)]) ''a1'')"
proof -
  have h: "\<forall>ev\<in>set [(''a1'', Start_player (Id ''p1'') 100),
                      (''a1'', Place_bid (Id ''teamA'') 120), (''a1'', Undo_bid)].
             nonneg_input (snd ev)"
    by simp
  from currentBid_nonneg [OF h, of "''a1''"] show ?thesis by simp
qed

text \<open>
  C10: on a room without a leader, a bid whose \<^verbatim>\<open>teamId\<close> is \<^verbatim>\<open>null\<close> and whose amount is
  at least \<open>currentBid\<close> is accepted like any opening bid: the frame is pushed, \<open>currentBid\<close>
  becomes the amount, the room is broadcast. \<open>leadingTeamId\<close> is still \<^verbatim>\<open>null\<close> afterwards,
  so the next bid is accepted exactly when its amount is at least the new \<open>currentBid\<close>.
\<close>

theorem place_bid_null_team:
  assumes "leadingTeamId s = Null" and "currentBid s \<le> amount"
  shows "place_bid Null amount s =
           (let s' = s\<lparr>bidHistory := bidHistory s @ [\<lparr>bid = currentBid s, leader = Null\<rparr>],
                        currentBid := amount, leadingTeamId := Null\<rparr>
            in (s', [Auction_state s']))
       \<and> leadingTeamId (fst (place_bid Null amount s)) = Null
       \<and> (\<forall>t a. bid_accepted t a (fst (place_bid Null amount s)) = (amount \<le> a))"
  using assms by (simp add: bid_accepted_def place_bid_def accept_bid_def Let_def)

theorem place_bid_null_team_witness:
  "leadingTeamId (fst (start_player (Id ''p1'') 100 initial_state)) = Null
   \<and> currentBid (fst (start_player (Id ''p1'') 100 initial_state)) \<le> 150
   \<and> place_bid Null 150 (fst (start_player (Id ''p1'') 100 initial_state))
     = (\<lparr>currentBid = 150, leadingTeamId = Null, currentPlayerId = Id ''p1'',
         status = ACTIVE, bidHistory = [\<lparr>bid = 100, leader = Null\<rparr>]\<rparr>,
        [Auction_state
          \<lparr>currentBid = 150, leadingTeamId = Null, currentPlayerId = Id ''p1'',
           status = ACTIVE, bidHistory = [\<lparr>bid = 100, leader = Null\<rparr>]\<rparr>])
   \<and> bid_accepted (Id ''teamA'') 150
       (fst (place_bid Null 150 (fst (start_player (Id ''p1'') 100 initial_state))))"
proof -
  have l: "leadingTeamId (fst (start_player (Id ''p1'') 100 initial_state)) = Null"
    and c: "currentBid (fst (start_player (Id ''p1'') 100 initial_state)) \<le> 150"
    by (simp_all add: start_player_def initial_state_def Let_def)
  from place_bid_null_team [OF l c] l c show ?thesis
    by (simp add: bid_accepted_def handler_defs initial_state_def Let_def)
qed

end
